theory Spec2Isabelle
  imports Main
begin

section \<open>The schema of \<^verbatim>\<open>main.py\<close>\<close>

text \<open>
  Each mapped class is a record with the columns of the class as fields, under the
  column's own name. Several classes use the same column name (\<^verbatim>\<open>user_id\<close>,
  \<^verbatim>\<open>tool_id\<close>, \<^verbatim>\<open>user_tool_id\<close>, \<^verbatim>\<open>question_id\<close>), so those fields are always
  written with the class in front (\<open>User.user_id\<close>, \<open>User_Tool.user_id\<close>).

  An autoincrement primary key is \<open>int option\<close>: a new object has \<open>None\<close> there until
  the row is inserted, and every stored row has \<open>Some\<close> identifier. The other columns
  that the handler fills in are \<^verbatim>\<open>nullable=False\<close> and are given a value by every
  constructor call in the source, so they are plain values.

  The two date columns of \<^verbatim>\<open>user_tools\<close> take their value from the clock
  (\<^verbatim>\<open>default=datetime.now\<close>) and are left out. \<^verbatim>\<open>payments\<close> is never read or written
  by the handler; its date is a (year, month, day) triple and its amount a
  (mantissa, exponent) pair.
\<close>

record User =
  user_id :: "int option"
  first_name :: string
  last_name :: string
  telephone_number :: string
  email :: string
  professional_status :: string
  industry :: string
  organization :: string
  job_level :: string
  department :: string
  location :: string

record Payment =
  payment_id :: "int option"
  user_id :: int
  payment_date :: "nat \<times> nat \<times> nat"
  payment_amount :: "int \<times> int"
  payment_status :: string

record Diagnostic_Tool =
  tool_id :: "int option"
  tool_name :: string
  tool_description :: "string option"

record User_Tool =
  user_tool_id :: "int option"
  user_id :: int
  tool_id :: int

record Question =
  question_id :: "int option"
  tool_id :: int
  question_text :: string
  question_type :: string

record Answer =
  answer_id :: "int option"
  user_tool_id :: int
  question_id :: int
  answer_text :: string

text \<open>The request body, \<^verbatim>\<open>class FormData(BaseModel)\<close>.\<close>

record FormData =
  fullName :: string
  telephoneNumber :: string
  emailAddress :: string
  professionalStatus :: string
  industry :: string
  organisation :: string
  jobLevel :: string
  department :: string
  location :: string
  step2Data :: "int list"
  step3Data :: "int list"
  step4Data :: "int list"
  step5Data :: "int list"
  step6Data :: "int list"
  step7Data :: "int list"
  step8Data :: "int list"

section \<open>The database\<close>

text \<open>
  The state of the database is the six tables that \<^verbatim>\<open>Base.metadata.create_all\<close>
  creates, each a list of rows in insertion order, and the sequences behind the three
  autoincrement keys the handler uses. The model is of one request running alone:
  nothing else writes between its commits.
\<close>

record database =
  users :: "User list"
  payments :: "Payment list"
  diagnostic_tools :: "Diagnostic_Tool list"
  user_tools :: "User_Tool list"
  questions :: "Question list"
  answers :: "Answer list"
  users_user_id_seq :: int
  user_tools_user_tool_id_seq :: int
  answers_answer_id_seq :: int

text \<open>
  What can go wrong in a request. \<open>ValidationError\<close> is the rejection of the body by
  the \<^verbatim>\<open>FormData\<close> model, before the handler runs. \<open>ValueError\<close> and
  \<open>AttributeError\<close> are the Python exceptions of tuple unpacking and of
  \<^verbatim>\<open>getattr\<close>. \<open>IntegrityError\<close> is what the session raises when an insert breaks a
  constraint that the schema declares, and \<open>CharacterNotInRepertoireError\<close> is the
  refusal by PostgreSQL of a text value that it cannot store.
\<close>

datatype violation = UniqueViolation | ForeignKeyViolation

datatype error =
  ValidationError | ValueError | AttributeError | IntegrityError violation
  | CharacterNotInRepertoireError

text \<open>
  A string is the list of its characters. PostgreSQL stores every text value but one
  that has the character U+0000. A statement with such a value is refused when its
  parameters are read: no key is drawn and no constraint is looked at.
\<close>

definition storable_text :: "string \<Rightarrow> bool" where
  "storable_text s = (CHR 0x00 \<notin> set s)"

definition storable_User :: "User \<Rightarrow> bool" where
  "storable_User user =
     (storable_text (first_name user) \<and> storable_text (last_name user)
      \<and> storable_text (telephone_number user) \<and> storable_text (email user)
      \<and> storable_text (professional_status user) \<and> storable_text (User.industry user)
      \<and> storable_text (organization user) \<and> storable_text (job_level user)
      \<and> storable_text (User.department user) \<and> storable_text (User.location user))"

definition storable_FormData :: "FormData \<Rightarrow> bool" where
  "storable_FormData body =
     (storable_text (fullName body) \<and> storable_text (telephoneNumber body)
      \<and> storable_text (emailAddress body) \<and> storable_text (professionalStatus body)
      \<and> storable_text (FormData.industry body) \<and> storable_text (organisation body)
      \<and> storable_text (jobLevel body) \<and> storable_text (FormData.department body)
      \<and> storable_text (FormData.location body))"

text \<open>
  One \<^verbatim>\<open>INSERT\<close> per table. The key comes from the sequence when the object has none,
  and it is drawn before the constraints are looked at. The constraints are the
  declared ones: the primary key and \<^verbatim>\<open>unique=True\<close> on \<^verbatim>\<open>users.email\<close>, and the
  \<^verbatim>\<open>ForeignKey\<close> columns of \<^verbatim>\<open>user_tools\<close> and \<^verbatim>\<open>answers\<close>. A statement that
  succeeds gives the new state and the key of the new row. One that fails gives the
  error and the state that it leaves inside the transaction: no new row, and the
  sequence after the draw.
\<close>

definition insert_user :: "database \<Rightarrow> User \<Rightarrow> error \<times> database + database \<times> int" where
  "insert_user db user =
     (if \<not> storable_User user then Inl (CharacterNotInRepertoireError, db)
      else
        let new_id = (case User.user_id user of None \<Rightarrow> users_user_id_seq db | Some k \<Rightarrow> k);
            drawn = db\<lparr>users_user_id_seq :=
                         (case User.user_id user of None \<Rightarrow> users_user_id_seq db + 1
                          | Some k \<Rightarrow> users_user_id_seq db)\<rparr>
        in if Some new_id \<in> set (map User.user_id (users db))
           then Inl (IntegrityError UniqueViolation, drawn)
           else if email user \<in> set (map email (users db))
           then Inl (IntegrityError UniqueViolation, drawn)
           else Inr (drawn\<lparr>users := users db @ [user\<lparr>User.user_id := Some new_id\<rparr>]\<rparr>, new_id))"

definition insert_user_tool ::
  "database \<Rightarrow> User_Tool \<Rightarrow> error \<times> database + database \<times> int" where
  "insert_user_tool db user_tool =
     (let new_id = (case User_Tool.user_tool_id user_tool of
                      None \<Rightarrow> user_tools_user_tool_id_seq db | Some k \<Rightarrow> k);
          drawn = db\<lparr>user_tools_user_tool_id_seq :=
                       (case User_Tool.user_tool_id user_tool of
                          None \<Rightarrow> user_tools_user_tool_id_seq db + 1
                        | Some k \<Rightarrow> user_tools_user_tool_id_seq db)\<rparr>
      in if Some new_id \<in> set (map User_Tool.user_tool_id (user_tools db))
         then Inl (IntegrityError UniqueViolation, drawn)
         else if Some (User_Tool.user_id user_tool) \<in> set (map User.user_id (users db))
           \<and> Some (User_Tool.tool_id user_tool) \<in> set (map Diagnostic_Tool.tool_id (diagnostic_tools db))
         then Inr (drawn\<lparr>user_tools :=
                      user_tools db @ [user_tool\<lparr>User_Tool.user_tool_id := Some new_id\<rparr>]\<rparr>,
                   new_id)
         else Inl (IntegrityError ForeignKeyViolation, drawn))"

definition insert_answer :: "database \<Rightarrow> Answer \<Rightarrow> error \<times> database + database \<times> int" where
  "insert_answer db answer =
     (if \<not> storable_text (answer_text answer) then Inl (CharacterNotInRepertoireError, db)
      else
        let new_id = (case answer_id answer of None \<Rightarrow> answers_answer_id_seq db | Some k \<Rightarrow> k);
            drawn = db\<lparr>answers_answer_id_seq :=
                         (case answer_id answer of None \<Rightarrow> answers_answer_id_seq db + 1
                          | Some k \<Rightarrow> answers_answer_id_seq db)\<rparr>
        in if Some new_id \<in> set (map answer_id (answers db))
           then Inl (IntegrityError UniqueViolation, drawn)
           else if Some (Answer.user_tool_id answer) \<in> set (map User_Tool.user_tool_id (user_tools db))
             \<and> Some (Answer.question_id answer) \<in> set (map Question.question_id (questions db))
           then Inr (drawn\<lparr>answers := answers db @ [answer\<lparr>answer_id := Some new_id\<rparr>]\<rparr>,
                     new_id)
           else Inl (IntegrityError ForeignKeyViolation, drawn))"

text \<open>
  The session. \<^verbatim>\<open>db.add(obj)\<close> puts the object at the end of the pending list and
  touches no table. \<^verbatim>\<open>db.commit()\<close> flushes the pending objects in the order they
  were added, inside one transaction. When an insert fails, the exception leaves the
  handler, the session is closed by \<^verbatim>\<open>get_db\<close> and the transaction is rolled back: the
  six tables are what they were at the last successful commit, and the sequences keep
  what the failed transaction drew from them, since a sequence is not rolled back. How
  many keys a failed flush of several objects has drawn depends on how the session
  batches its inserts; here it is one for each insert up to the one that failed, and
  no theorem below concludes on the sequences that a failed request leaves.
\<close>

definition session_add :: "'a list \<Rightarrow> 'a \<Rightarrow> 'a list" where
  "session_add pending obj = pending @ [obj]"

fun flush_answers ::
  "database \<Rightarrow> Answer list \<Rightarrow> error \<times> database + database \<times> int list" where
  "flush_answers db [] = Inr (db, [])"
| "flush_answers db (answer # pending) =
     (case insert_answer db answer of
        Inl failure \<Rightarrow> Inl failure
      | Inr (db', new_id) \<Rightarrow>
          (case flush_answers db' pending of
             Inl failure \<Rightarrow> Inl failure
           | Inr (db'', ids) \<Rightarrow> Inr (db'', new_id # ids)))"

definition rollback :: "database \<Rightarrow> database \<Rightarrow> database" where
  "rollback db failed =
     db\<lparr>users_user_id_seq := users_user_id_seq failed,
        user_tools_user_tool_id_seq := user_tools_user_tool_id_seq failed,
        answers_answer_id_seq := answers_answer_id_seq failed\<rparr>"

definition commit ::
  "database \<Rightarrow> error \<times> database + database \<times> 'a \<Rightarrow> database \<times> (error + 'a)" where
  "commit db flushed =
     (case flushed of
        Inl (e, failed) \<Rightarrow> (rollback db failed, Inl e)
      | Inr (db', generated) \<Rightarrow> (db', Inr generated))"

section \<open>Python built-ins the handler calls\<close>

text \<open>
  The separator of the source, \<^verbatim>\<open>' '\<close>, is the one character \<open>CHR '' ''\<close>.

  \<^verbatim>\<open>s.split(sep, maxsplit)\<close> for a one-character separator: cut at each of the first
  \<^verbatim>\<open>maxsplit\<close> separators, from the left; the rest of the string is the last piece.
  \<open>piece\<close> is the text read since the last cut.
\<close>

fun split_from :: "char \<Rightarrow> nat \<Rightarrow> string \<Rightarrow> string \<Rightarrow> string list" where
  "split_from sep 0 piece s = [piece @ s]"
| "split_from sep (Suc maxsplit) piece [] = [piece]"
| "split_from sep (Suc maxsplit) piece (c # s) =
     (if c = sep then piece # split_from sep maxsplit [] s
      else split_from sep (Suc maxsplit) (piece @ [c]) s)"

definition str_split :: "string \<Rightarrow> char \<Rightarrow> nat \<Rightarrow> string list" where
  "str_split s sep maxsplit = split_from sep maxsplit [] s"

text \<open>
  \<^verbatim>\<open>a, b = parts\<close>: a list of any other length than two raises
  \<^verbatim>\<open>ValueError\<close> (not enough, or too many, values to unpack).
\<close>

fun unpack2 :: "'a list \<Rightarrow> error + 'a \<times> 'a" where
  "unpack2 [a, b] = Inr (a, b)"
| "unpack2 parts = Inl ValueError"

text \<open>\<^verbatim>\<open>str(n)\<close> of an integer: its decimal digits, after a minus sign when negative.\<close>

definition digit_char :: "nat \<Rightarrow> char" where
  "digit_char d = ''0123456789'' ! d"

function str_nat :: "nat \<Rightarrow> string" where
  "str_nat n = (if n < 10 then [digit_char n] else str_nat (n div 10) @ [digit_char (n mod 10)])"
  by pat_completeness auto
termination
  by (relation "measure id") auto

declare str_nat.simps [simp del]

definition str :: "int \<Rightarrow> string" where
  "str i = (if i < 0 then CHR ''-'' # str_nat (nat (- i)) else str_nat (nat i))"






text \<open>\<^verbatim>\<open>range(a, b)\<close>: the integers from \<open>a\<close> up to \<open>b - 1\<close>.\<close>

definition py_range :: "int \<Rightarrow> int \<Rightarrow> int list" where
  "py_range a b = [a..b - 1]"

text \<open>
  \<^verbatim>\<open>getattr(form_data, f"step{step}Data")\<close>: the model has the seven attributes
  \<^verbatim>\<open>step2Data\<close> to \<^verbatim>\<open>step8Data\<close> and no other of that form.
\<close>

definition getattr_stepData :: "FormData \<Rightarrow> int \<Rightarrow> error + int list" where
  "getattr_stepData form_data step =
     (if step = 2 then Inr (step2Data form_data)
      else if step = 3 then Inr (step3Data form_data)
      else if step = 4 then Inr (step4Data form_data)
      else if step = 5 then Inr (step5Data form_data)
      else if step = 6 then Inr (step6Data form_data)
      else if step = 7 then Inr (step7Data form_data)
      else if step = 8 then Inr (step8Data form_data)
      else Inl AttributeError)"

section \<open>The handler \<^verbatim>\<open>submit_form\<close>\<close>

text \<open>
  The three constructor calls of the handler. Each builds a new object, whose key is
  still \<^verbatim>\<open>None\<close>.
\<close>

definition new_User :: "FormData \<Rightarrow> string \<Rightarrow> string \<Rightarrow> User" where
  "new_User form_data first_name' last_name' =
     \<lparr>User.user_id = None,
      first_name = first_name',
      last_name = last_name',
      telephone_number = telephoneNumber form_data,
      email = emailAddress form_data,
      professional_status = professionalStatus form_data,
      User.industry = FormData.industry form_data,
      organization = organisation form_data,
      job_level = jobLevel form_data,
      User.department = FormData.department form_data,
      User.location = FormData.location form_data\<rparr>"

definition new_User_Tool :: "int \<Rightarrow> User_Tool" where
  "new_User_Tool uid =
     \<lparr>User_Tool.user_tool_id = None, User_Tool.user_id = uid, User_Tool.tool_id = 1\<rparr>"

definition new_Answer :: "int \<Rightarrow> int \<Rightarrow> int \<Rightarrow> int \<Rightarrow> Answer" where
  "new_Answer utid step index answer_value =
     \<lparr>answer_id = None,
      Answer.user_tool_id = utid,
      Answer.question_id = (step - 2) * 9 + index + 1,
      answer_text = str answer_value\<rparr>"

text \<open>
  The inner loop, \<^verbatim>\<open>for index, answer_value in enumerate(step_data)\<close>, with the
  index as a counter that starts at 0: it adds one \<^verbatim>\<open>Answer\<close> per value to the session.
\<close>

fun add_step_answers :: "int \<Rightarrow> int \<Rightarrow> int \<Rightarrow> int list \<Rightarrow> Answer list \<Rightarrow> Answer list" where
  "add_step_answers utid step index [] pending = pending"
| "add_step_answers utid step index (answer_value # step_data) pending =
     add_step_answers utid step (index + 1) step_data
       (session_add pending (new_Answer utid step index answer_value))"

text \<open>The outer loop, \<^verbatim>\<open>for step in range(2, 9)\<close>.\<close>

fun add_answers :: "int \<Rightarrow> FormData \<Rightarrow> int list \<Rightarrow> Answer list \<Rightarrow> error + Answer list" where
  "add_answers utid form_data [] pending = Inr pending"
| "add_answers utid form_data (step # steps) pending =
     (case getattr_stepData form_data step of
        Inl e \<Rightarrow> Inl e
      | Inr step_data \<Rightarrow>
          add_answers utid form_data steps (add_step_answers utid step 0 step_data pending))"

text \<open>
  The handler takes the database and the validated body, and returns the database it
  leaves behind together with the exception it raised or the body of its response.
  A JSON object is the list of its members.
\<close>

definition submit_form ::
  "database \<Rightarrow> FormData \<Rightarrow> database \<times> (error + (string \<times> string) list)" where
  "submit_form db form_data =
     (case unpack2 (str_split (fullName form_data) (CHR '' '') 1) of
        Inl e \<Rightarrow> (db, Inl e)
      | Inr (first_name', last_name') \<Rightarrow>
          (case commit db (insert_user db (new_User form_data first_name' last_name')) of
             (db1, Inl e) \<Rightarrow> (db1, Inl e)
           | (db1, Inr uid) \<Rightarrow>
               (case commit db1 (insert_user_tool db1 (new_User_Tool uid)) of
                  (db2, Inl e) \<Rightarrow> (db2, Inl e)
                | (db2, Inr utid) \<Rightarrow>
                    (case add_answers utid form_data (py_range 2 9) [] of
                       Inl e \<Rightarrow> (db2, Inl e)
                     | Inr pending \<Rightarrow>
                         (case commit db2 (flush_answers db2 pending) of
                            (db3, Inl e) \<Rightarrow> (db3, Inl e)
                          | (db3, Inr ids) \<Rightarrow>
                              (db3, Inr [(''message'', ''Form submitted successfully'')]))))))"

section \<open>Validation of the request body\<close>

text \<open>
  FastAPI builds the \<^verbatim>\<open>FormData\<close> object from the body and calls the handler only
  when that succeeds. The body here already has a string in each \<^verbatim>\<open>str\<close> field and
  a list of integers in each \<^verbatim>\<open>List[int]\<close> field: the annotation \<^verbatim>\<open>str\<close> asks for
  nothing more of a string. The one field with a check of its own is
  \<^verbatim>\<open>emailAddress: EmailStr\<close>. The check belongs to the pydantic library, so it is a
  parameter: \<open>EmailStr s\<close> is \<open>None\<close> when \<open>s\<close> is refused and otherwise the address in
  the form the library hands on.
\<close>

definition FormData_validate :: "(string \<Rightarrow> string option) \<Rightarrow> FormData \<Rightarrow> error + FormData" where
  "FormData_validate EmailStr body =
     (case EmailStr (emailAddress body) of
        None \<Rightarrow> Inl ValidationError
      | Some address \<Rightarrow> Inr (body\<lparr>emailAddress := address\<rparr>))"

definition post_submit_form ::
  "(string \<Rightarrow> string option) \<Rightarrow> database \<Rightarrow> FormData
     \<Rightarrow> database \<times> (error + (string \<times> string) list)" where
  "post_submit_form EmailStr db body =
     (case FormData_validate EmailStr body of
        Inl e \<Rightarrow> (db, Inl e)
      | Inr form_data \<Rightarrow> submit_form db form_data)"

section \<open>Closed forms of the loops\<close>

text \<open>
  What the two loops leave in the session, written without a loop: the objects of one
  step, one per position of its array, and the objects of the seven steps in order.
  \<open>answers_before form_data s\<close> is the number of objects the loop has added when it
  reaches step \<open>s\<close>.
\<close>

definition step_answers :: "int \<Rightarrow> int \<Rightarrow> int list \<Rightarrow> Answer list" where
  "step_answers utid step step_data =
     map (\<lambda>i. new_Answer utid step (int i) (step_data ! i)) [0..<length step_data]"

definition expected_answers :: "int \<Rightarrow> FormData \<Rightarrow> Answer list" where
  "expected_answers utid form_data =
     step_answers utid 2 (step2Data form_data) @ step_answers utid 3 (step3Data form_data) @
     step_answers utid 4 (step4Data form_data) @ step_answers utid 5 (step5Data form_data) @
     step_answers utid 6 (step6Data form_data) @ step_answers utid 7 (step7Data form_data) @
     step_answers utid 8 (step8Data form_data)"

definition answers_before :: "FormData \<Rightarrow> int \<Rightarrow> nat" where
  "answers_before form_data s =
     (if 2 < s then length (step2Data form_data) else 0) +
     (if 3 < s then length (step3Data form_data) else 0) +
     (if 4 < s then length (step4Data form_data) else 0) +
     (if 5 < s then length (step5Data form_data) else 0) +
     (if 6 < s then length (step6Data form_data) else 0) +
     (if 7 < s then length (step7Data form_data) else 0)"

section \<open>Sample data\<close>

text \<open>
  A database as the bootstrap leaves it: the diagnostic tool 1 with the questions of the
  given identifiers, and no user yet. \<open>jane_doe\<close> is the end-to-end scenario of the
  specification; the other bodies differ from it in the fields named.
\<close>

definition seeded_db :: "int list \<Rightarrow> database" where
  "seeded_db question_ids =
     \<lparr>users = [], payments = [],
      diagnostic_tools =
        [\<lparr>Diagnostic_Tool.tool_id = Some 1, tool_name = ''Mindset'', tool_description = None\<rparr>],
      user_tools = [],
      questions =
        map (\<lambda>k. \<lparr>Question.question_id = Some k, Question.tool_id = 1,
                   question_text = ''Rate the statement'', question_type = ''scale''\<rparr>)
          question_ids,
      answers = [],
      users_user_id_seq = 1, user_tools_user_tool_id_seq = 1, answers_answer_id_seq = 1\<rparr>"

definition jane_doe :: FormData where
  "jane_doe =
     \<lparr>fullName = ''Jane Doe'', telephoneNumber = ''0700000000'',
      emailAddress = ''jane@example.com'', professionalStatus = ''Employed'',
      FormData.industry = ''Health'', organisation = ''Acme'', jobLevel = ''Senior'',
      FormData.department = ''Research'', FormData.location = ''Nairobi'',
      step2Data = [1, 2], step3Data = [], step4Data = [], step5Data = [], step6Data = [],
      step7Data = [], step8Data = []\<rparr>"

text \<open>
  The database after each of the three commits of that scenario, over a database seeded
  with the questions given.
\<close>

definition jane_user_stored :: "int list \<Rightarrow> database" where
  "jane_user_stored question_ids =
     (seeded_db question_ids)
       \<lparr>users :=
          [\<lparr>User.user_id = Some 1, first_name = ''Jane'', last_name = ''Doe'',
            telephone_number = ''0700000000'', email = ''jane@example.com'',
            professional_status = ''Employed'', User.industry = ''Health'',
            organization = ''Acme'', job_level = ''Senior'', User.department = ''Research'',
            User.location = ''Nairobi''\<rparr>],
        users_user_id_seq := 2\<rparr>"

definition jane_tool_stored :: "int list \<Rightarrow> database" where
  "jane_tool_stored question_ids =
     (jane_user_stored question_ids)
       \<lparr>user_tools :=
          [\<lparr>User_Tool.user_tool_id = Some 1, User_Tool.user_id = 1, User_Tool.tool_id = 1\<rparr>],
        user_tools_user_tool_id_seq := 2\<rparr>"

definition jane_doe_stored :: database where
  "jane_doe_stored =
     (jane_tool_stored [1, 2])
       \<lparr>answers :=
          [\<lparr>answer_id = Some 1, Answer.user_tool_id = 1, Answer.question_id = 1,
            answer_text = ''1''\<rparr>,
           \<lparr>answer_id = Some 2, Answer.user_tool_id = 1, Answer.question_id = 2,
            answer_text = ''2''\<rparr>],
        answers_answer_id_seq := 3\<rparr>"

definition mononym :: FormData where
  "mononym = jane_doe\<lparr>fullName := ''Jane''\<rparr>"

definition leading_space :: FormData where
  "leading_space = jane_doe\<lparr>fullName := '' Jane Doe''\<rparr>"

definition blank_fields :: FormData where
  "blank_fields =
     jane_doe\<lparr>telephoneNumber := [], professionalStatus := [], FormData.industry := [],
       organisation := [], jobLevel := [], FormData.department := [],
       FormData.location := []\<rparr>"

definition nul_phone :: FormData where
  "nul_phone = jane_doe\<lparr>telephoneNumber := [CHR 0x00]\<rparr>"


definition overlong :: FormData where
  "overlong = jane_doe\<lparr>step2Data := [1, 2, 3, 4, 5, 1, 2, 3, 4, 5], step3Data := [3]\<rparr>"

text \<open>
  A stand-in for the library's check in the concrete runs below: it accepts the one
  address given, unchanged, and refuses every other string. The theorems themselves
  hold for every check.
\<close>

definition accepts_only :: "string \<Rightarrow> string \<Rightarrow> string option" where
  "accepts_only address s = (if s = address then Some s else None)"

section \<open>Facts about the built-ins and the loops\<close>

lemma split_from_once:
  "split_from sep (Suc 0) piece s =
     (if sep \<in> set s
      then [piece @ takeWhile (\<lambda>c. c \<noteq> sep) s, tl (dropWhile (\<lambda>c. c \<noteq> sep) s)]
      else [piece @ s])"
  by (induction s arbitrary: piece) auto

lemma unpack2_str_split:
  "unpack2 (str_split s sep 1) =
     (if sep \<in> set s
      then Inr (takeWhile (\<lambda>c. c \<noteq> sep) s, tl (dropWhile (\<lambda>c. c \<noteq> sep) s))
      else Inl ValueError)"
  by (simp add: str_split_def split_from_once)

lemma unpack2_str_split_once:
  "unpack2 (str_split s sep (Suc 0)) =
     (if sep \<in> set s
      then Inr (takeWhile (\<lambda>c. c \<noteq> sep) s, tl (dropWhile (\<lambda>c. c \<noteq> sep) s))
      else Inl ValueError)"
  by (simp add: str_split_def split_from_once)

text \<open>
  A string that has the separator is the text before its first occurrence, the
  separator, and the text after it.
\<close>

lemma first_separator:
  assumes "sep \<in> set s"
  shows "s = takeWhile (\<lambda>c. c \<noteq> sep) s @ sep # tl (dropWhile (\<lambda>c. c \<noteq> sep) s)"
    and "sep \<notin> set (takeWhile (\<lambda>c. c \<noteq> sep) s)"
proof -
  let ?rest = "dropWhile (\<lambda>c. c \<noteq> sep) s"
  from assms have nonempty: "?rest \<noteq> []"
    by auto
  then have "hd ?rest = sep"
    using hd_dropWhile [of "\<lambda>c. c \<noteq> sep" s] by simp
  with nonempty have "?rest = sep # tl ?rest"
    by (cases ?rest) simp_all
  then have "takeWhile (\<lambda>c. c \<noteq> sep) s @ sep # tl ?rest = takeWhile (\<lambda>c. c \<noteq> sep) s @ ?rest"
    by simp
  then show "s = takeWhile (\<lambda>c. c \<noteq> sep) s @ sep # tl ?rest"
    by simp
  show "sep \<notin> set (takeWhile (\<lambda>c. c \<noteq> sep) s)"
    by (auto dest: set_takeWhileD)
qed








lemma add_step_answers_from:
  "add_step_answers utid step index step_data pending =
     pending @
     map (\<lambda>i. new_Answer utid step (index + int i) (step_data ! i)) [0..<length step_data]"
proof (induction step_data arbitrary: index pending)
  case Nil
  show ?case by simp
next
  case (Cons v vs)
  have "map (\<lambda>i. new_Answer utid step (index + int i) ((v # vs) ! i)) [0..<length (v # vs)] =
        new_Answer utid step index v #
        map (\<lambda>i. new_Answer utid step (index + 1 + int i) (vs ! i)) [0..<length vs]"
    by (simp add: map_upt_Suc add.commute add.left_commute del: upt_Suc)
  then show ?case
    by (simp add: Cons.IH session_add_def)
qed

lemma add_step_answers_eq:
  "add_step_answers utid step 0 step_data pending = pending @ step_answers utid step step_data"
  by (simp add: add_step_answers_from step_answers_def)

lemma py_range_2_9: "py_range 2 9 = [2, 3, 4, 5, 6, 7, 8]"
  by (simp add: py_range_def upto.simps)

lemma add_answers_range:
  "add_answers utid form_data (py_range 2 9) [] = Inr (expected_answers utid form_data)"
  by (simp add: py_range_2_9 getattr_stepData_def add_step_answers_eq expected_answers_def)

section \<open>Facts about the inserts and the phases of the handler\<close>

lemma insert_answer_Inr:
  assumes "insert_answer db answer = Inr (db', k)"
  shows "answers db' = answers db @ [answer\<lparr>answer_id := Some k\<rparr>]"
    and "users db' = users db" and "payments db' = payments db"
    and "diagnostic_tools db' = diagnostic_tools db" and "user_tools db' = user_tools db"
    and "questions db' = questions db"
    and "Some (Answer.question_id answer) \<in> set (map Question.question_id (questions db))"
    and "Some (Answer.user_tool_id answer) \<in> set (map User_Tool.user_tool_id (user_tools db))"
  using assms by (auto simp: insert_answer_def Let_def split: if_splits option.splits)

lemma flush_answers_Inr:
  assumes "flush_answers db pending = Inr (db', ids)"
  shows "length ids = length pending
       \<and> answers db' = answers db @ map2 (\<lambda>answer k. answer\<lparr>answer_id := Some k\<rparr>) pending ids
       \<and> users db' = users db \<and> payments db' = payments db
       \<and> diagnostic_tools db' = diagnostic_tools db \<and> user_tools db' = user_tools db
       \<and> questions db' = questions db
       \<and> set (map (\<lambda>answer. Some (Answer.question_id answer)) pending)
           \<subseteq> set (map Question.question_id (questions db))"
  using assms
proof (induction pending arbitrary: db ids)
  case Nil
  then show ?case by simp
next
  case (Cons answer pending)
  from Cons.prems obtain db1 k ids' where
    ins: "insert_answer db answer = Inr (db1, k)" and
    rest: "flush_answers db1 pending = Inr (db', ids')" and
    ids: "ids = k # ids'"
    by (auto split: sum.splits prod.splits)
  from Cons.IH [OF rest] insert_answer_Inr [OF ins] ids show ?case
    by simp
qed

text \<open>A rollback gives back the six tables.\<close>

lemma rollback_tables [simp]:
  "users (rollback db failed) = users db"
  "payments (rollback db failed) = payments db"
  "diagnostic_tools (rollback db failed) = diagnostic_tools db"
  "user_tools (rollback db failed) = user_tools db"
  "questions (rollback db failed) = questions db"
  "answers (rollback db failed) = answers db"
  by (simp_all add: rollback_def)

text \<open>The handler with the loops in closed form: one case per phase.\<close>

lemma submit_form_phases:
  "submit_form db form_data =
     (case unpack2 (str_split (fullName form_data) (CHR '' '') 1) of
        Inl e \<Rightarrow> (db, Inl e)
      | Inr (first_name', last_name') \<Rightarrow>
          (case insert_user db (new_User form_data first_name' last_name') of
             Inl (e, failed) \<Rightarrow> (rollback db failed, Inl e)
           | Inr (db1, uid) \<Rightarrow>
               (case insert_user_tool db1 (new_User_Tool uid) of
                  Inl (e, failed) \<Rightarrow> (rollback db1 failed, Inl e)
                | Inr (db2, utid) \<Rightarrow>
                    (case flush_answers db2 (expected_answers utid form_data) of
                       Inl (e, failed) \<Rightarrow> (rollback db2 failed, Inl e)
                     | Inr (db3, ids) \<Rightarrow>
                         (db3, Inr [(''message'', ''Form submitted successfully'')])))))"
  by (simp add: submit_form_def commit_def add_answers_range split: sum.splits prod.splits)


lemma insert_user_Inr:
  assumes "insert_user db user = Inr (db', k)"
  shows "users db' = users db @ [user\<lparr>User.user_id := Some k\<rparr>]"
    and "payments db' = payments db" and "diagnostic_tools db' = diagnostic_tools db"
    and "user_tools db' = user_tools db" and "questions db' = questions db"
    and "answers db' = answers db"
    and "Some k \<notin> set (map User.user_id (users db))"
    and "email user \<notin> set (map email (users db))"
    and "storable_User user"
  using assms by (auto simp: insert_user_def Let_def split: if_splits option.splits)

lemma insert_user_tool_Inr:
  assumes "insert_user_tool db user_tool = Inr (db', k)"
  shows "user_tools db' = user_tools db @ [user_tool\<lparr>User_Tool.user_tool_id := Some k\<rparr>]"
    and "users db' = users db" and "payments db' = payments db"
    and "diagnostic_tools db' = diagnostic_tools db" and "questions db' = questions db"
    and "answers db' = answers db"
    and "Some (User_Tool.tool_id user_tool) \<in> set (map Diagnostic_Tool.tool_id (diagnostic_tools db))"
  using assms by (auto simp: insert_user_tool_def Let_def split: if_splits option.splits)

lemma submit_form_Inr:
  assumes "submit_form db form_data = (db', Inr response)"
  obtains first_name' last_name' db1 uid db2 utid ids where
    "unpack2 (str_split (fullName form_data) (CHR '' '') 1) = Inr (first_name', last_name')"
    "insert_user db (new_User form_data first_name' last_name') = Inr (db1, uid)"
    "insert_user_tool db1 (new_User_Tool uid) = Inr (db2, utid)"
    "flush_answers db2 (expected_answers utid form_data) = Inr (db', ids)"
    "response = [(''message'', ''Form submitted successfully'')]"
  using assms unfolding submit_form_phases by (auto split: sum.splits prod.splits)

lemma length_step_answers [simp]: "length (step_answers utid step step_data) = length step_data"
  by (simp add: step_answers_def)

lemma nth_step_answers:
  "i < length step_data \<Longrightarrow>
     step_answers utid step step_data ! i = new_Answer utid step (int i) (step_data ! i)"
  by (simp add: step_answers_def)




lemma expected_answers_nth:
  assumes "getattr_stepData form_data s = Inr step_data" and "i < length step_data"
  shows "answers_before form_data s + i < length (expected_answers utid form_data)"
    and "expected_answers utid form_data ! (answers_before form_data s + i) =
           new_Answer utid s (int i) (step_data ! i)"
proof -
  from assms(1) consider
      "s = 2" "step_data = step2Data form_data" | "s = 3" "step_data = step3Data form_data"
    | "s = 4" "step_data = step4Data form_data" | "s = 5" "step_data = step5Data form_data"
    | "s = 6" "step_data = step6Data form_data" | "s = 7" "step_data = step7Data form_data"
    | "s = 8" "step_data = step8Data form_data"
    by (auto simp: getattr_stepData_def split: if_splits)
  then have "answers_before form_data s + i < length (expected_answers utid form_data) \<and>
      expected_answers utid form_data ! (answers_before form_data s + i) =
           new_Answer utid s (int i) (step_data ! i)"
    using assms(2)
    by cases (simp_all add: answers_before_def expected_answers_def nth_append nth_step_answers)
  then show "answers_before form_data s + i < length (expected_answers utid form_data)"
    and "expected_answers utid form_data ! (answers_before form_data s + i) =
           new_Answer utid s (int i) (step_data ! i)"
    by simp_all
qed


lemma overlong_run:
  "snd (submit_form (seeded_db [1, 2, 3, 4, 5, 6, 7, 8, 9, 10]) overlong) =
     Inr [(''message'', ''Form submitted successfully'')]
   \<and> map Answer.question_id
         (answers (fst (submit_form (seeded_db [1, 2, 3, 4, 5, 6, 7, 8, 9, 10]) overlong))) =
       [1, 2, 3, 4, 5, 6, 7, 8, 9, 10, 10]"
  by code_simp


text \<open>Whatever the outcome, the handler leaves \<^verbatim>\<open>users\<close> alone or adds the one new user.\<close>

lemma submit_form_users:
  assumes "submit_form db form_data = (db', outcome)"
  shows "users db' = users db
       \<or> (\<exists>first_name' last_name' uid.
             unpack2 (str_split (fullName form_data) (CHR '' '') 1) = Inr (first_name', last_name')
           \<and> users db' =
               users db @ [(new_User form_data first_name' last_name')\<lparr>User.user_id := Some uid\<rparr>])"
proof (cases "unpack2 (str_split (fullName form_data) (CHR '' '') 1)")
  case (Inl e)
  with assms show ?thesis
    by (auto simp: submit_form_phases split: prod.splits)
next
  case (Inr names)
  obtain first_name' last_name' where names: "names = (first_name', last_name')"
    by (cases names)
  show ?thesis
  proof (cases "insert_user db (new_User form_data first_name' last_name')")
    case (Inl e)
    with assms Inr names show ?thesis
      by (auto simp: submit_form_phases split: prod.splits)
  next
    case user: (Inr stored)
    obtain db1 uid where stored: "stored = (db1, uid)"
      by (cases stored)
    note U = insert_user_Inr [OF user [unfolded stored]]
    have "users db' = users db1"
    proof (cases "insert_user_tool db1 (new_User_Tool uid)")
      case (Inl e)
      with assms Inr names user stored show ?thesis
        by (auto simp: submit_form_phases split: prod.splits)
    next
      case tool: (Inr stored')
      obtain db2 utid where stored': "stored' = (db2, utid)"
        by (cases stored')
      note T = insert_user_tool_Inr [OF tool [unfolded stored']]
      show ?thesis
      proof (cases "flush_answers db2 (expected_answers utid form_data)")
        case (Inl e)
        with assms Inr names user stored tool stored' T show ?thesis
          by (auto simp: submit_form_phases split: prod.splits)
      next
        case flushed: (Inr stored'')
        obtain db3 ids where stored'': "stored'' = (db3, ids)"
          by (cases stored'')
        from flush_answers_Inr [OF flushed [unfolded stored'']]
        have "users db3 = users db2"
          by simp
        with assms Inr names user stored tool stored' flushed stored'' T show ?thesis
          by (auto simp: submit_form_phases split: prod.splits)
      qed
    qed
    with U Inr names show ?thesis
      by auto
  qed
qed

text \<open>
  What the later phases read of \<^verbatim>\<open>users\<close>. The flush of the answers reads nothing of
  it, the \<^verbatim>\<open>User_Tool\<close> insert reads the keys only, and the \<^verbatim>\<open>User\<close> insert reads
  of the new object the key, the e-mail address and whether its text can be stored.
\<close>

lemma insert_answer_users:
  "insert_answer (db\<lparr>users := us\<rparr>) answer =
     (case insert_answer db answer of
        Inl (e, d) \<Rightarrow> Inl (e, d\<lparr>users := us\<rparr>)
      | Inr (d, k) \<Rightarrow> Inr (d\<lparr>users := us\<rparr>, k))"
  by (simp add: insert_answer_def Let_def split: option.splits)

lemma flush_answers_users:
  "flush_answers (db\<lparr>users := us\<rparr>) pending =
     (case flush_answers db pending of
        Inl (e, d) \<Rightarrow> Inl (e, d\<lparr>users := us\<rparr>)
      | Inr (d, ids) \<Rightarrow> Inr (d\<lparr>users := us\<rparr>, ids))"
proof (induction pending arbitrary: db)
  case Nil
  show ?case by simp
next
  case (Cons answer pending)
  show ?case
    by (simp add: insert_answer_users Cons.IH split: sum.splits prod.splits)
qed

lemma insert_user_tool_users:
  assumes "map User.user_id us = map User.user_id (users db)"
  shows "insert_user_tool (db\<lparr>users := us\<rparr>) user_tool =
     (case insert_user_tool db user_tool of
        Inl (e, d) \<Rightarrow> Inl (e, d\<lparr>users := us\<rparr>)
      | Inr (d, k) \<Rightarrow> Inr (d\<lparr>users := us\<rparr>, k))"
  using assms by (simp add: insert_user_tool_def Let_def split: option.splits)

lemma insert_user_fields:
  assumes "email user' = email user" and "User.user_id user' = User.user_id user"
      and "storable_User user' = storable_User user"
  shows "insert_user db user' =
     (case insert_user db user of
        Inl failure \<Rightarrow> Inl failure
      | Inr (d, k) \<Rightarrow> Inr (d\<lparr>users := users db @ [user'\<lparr>User.user_id := Some k\<rparr>]\<rparr>, k))"
  using assms by (simp add: insert_user_def Let_def split: option.splits)

text \<open>
  So two bodies that agree on \<^verbatim>\<open>fullName\<close>, \<^verbatim>\<open>emailAddress\<close> and the seven step
  arrays, and whose text can be stored alike, get the same error or the same response.
\<close>

lemma submit_form_outcome:
  assumes "fullName form_data' = fullName form_data"
      and "emailAddress form_data' = emailAddress form_data"
      and "step2Data form_data' = step2Data form_data"
      and "step3Data form_data' = step3Data form_data"
      and "step4Data form_data' = step4Data form_data"
      and "step5Data form_data' = step5Data form_data"
      and "step6Data form_data' = step6Data form_data"
      and "step7Data form_data' = step7Data form_data"
      and "step8Data form_data' = step8Data form_data"
      and "\<And>a b. storable_User (new_User form_data' a b) = storable_User (new_User form_data a b)"
  shows "snd (submit_form db form_data') = snd (submit_form db form_data)"
proof (cases "unpack2 (str_split (fullName form_data) (CHR '' '') 1)")
  case (Inl e)
  then show ?thesis
    by (simp add: submit_form_phases assms(1) split: prod.splits)
next
  case (Inr names)
  obtain first_name' last_name' where names: "names = (first_name', last_name')"
    by (cases names)
  let ?user = "new_User form_data first_name' last_name'"
  let ?user' = "new_User form_data' first_name' last_name'"
  have same: "expected_answers utid form_data' = expected_answers utid form_data" for utid
    by (simp add: expected_answers_def assms)
  have user': "insert_user db ?user' =
     (case insert_user db ?user of
        Inl failure \<Rightarrow> Inl failure
      | Inr (d, k) \<Rightarrow> Inr (d\<lparr>users := users db @ [?user'\<lparr>User.user_id := Some k\<rparr>]\<rparr>, k))"
  proof (rule insert_user_fields)
    show "email ?user' = email ?user" and "User.user_id ?user' = User.user_id ?user"
      by (simp_all add: new_User_def assms(2))
    show "storable_User ?user' = storable_User ?user"
      by (rule assms(10))
  qed
  show ?thesis
  proof (cases "insert_user db ?user")
    case (Inl e)
    with Inr names user' show ?thesis
      by (simp add: submit_form_phases assms(1) split: prod.splits)
  next
    case user: (Inr stored)
    obtain db1 uid where stored: "stored = (db1, uid)"
      by (cases stored)
    let ?us = "users db @ [?user'\<lparr>User.user_id := Some uid\<rparr>]"
    have keys: "map User.user_id ?us = map User.user_id (users db1)"
      using insert_user_Inr(1) [OF user [unfolded stored]] by simp
    note tool' = insert_user_tool_users [OF keys, where user_tool = "new_User_Tool uid"]
    show ?thesis
    proof (cases "insert_user_tool db1 (new_User_Tool uid)")
      case (Inl e)
      with Inr names user stored user' tool' show ?thesis
        by (simp add: submit_form_phases assms(1) split: prod.splits)
    next
      case tool: (Inr stored')
      obtain db2 utid where stored': "stored' = (db2, utid)"
        by (cases stored')
      note flush' = flush_answers_users
        [where db = db2 and us = ?us and pending = "expected_answers utid form_data"]
      show ?thesis
      proof (cases "flush_answers db2 (expected_answers utid form_data)")
        case (Inl e)
        with Inr names user stored user' tool tool' stored' flush' show ?thesis
          by (simp add: submit_form_phases assms(1) same split: prod.splits)
      next
        case flushed: (Inr stored'')
        obtain db3 ids where stored'': "stored'' = (db3, ids)"
          by (cases stored'')
        from Inr names user stored user' tool tool' stored' flush' flushed stored''
        show ?thesis
          by (simp add: submit_form_phases assms(1) same split: prod.splits)
      qed
    qed
  qed
qed

text \<open>
  With a space in \<^verbatim>\<open>fullName\<close>, the new user can be stored exactly when the nine
  strings of the body can.
\<close>

lemma storable_new_User:
  assumes "CHR '' '' \<in> set (fullName form_data)"
  shows "storable_User
           (new_User form_data (takeWhile (\<lambda>c. c \<noteq> CHR '' '') (fullName form_data))
              (tl (dropWhile (\<lambda>c. c \<noteq> CHR '' '') (fullName form_data)))) =
         storable_FormData form_data"
proof -
  let ?before = "takeWhile (\<lambda>c. c \<noteq> CHR '' '') (fullName form_data)"
  let ?after = "tl (dropWhile (\<lambda>c. c \<noteq> CHR '' '') (fullName form_data))"
  have "set (fullName form_data) = set (?before @ CHR '' '' # ?after)"
    using first_separator(1) [OF assms] by simp
  then have "storable_text (fullName form_data) =
      (storable_text ?before \<and> storable_text ?after)"
    by (auto simp: storable_text_def)
  then show ?thesis
    by (auto simp: storable_User_def storable_FormData_def new_User_def)
qed



section \<open>The claims\<close>


text \<open>
  C1. In a submission that the handler accepts, take the value at position \<open>i\<close>
  (counted from 0) of the array of step \<open>s\<close>. The step is one of 2 to 8, and the row
  created for that value, which is the row of \<^verbatim>\<open>answers\<close> at the place after the old
  rows and the rows of the earlier steps and positions, has \<^verbatim>\<open>question_id\<close>
  \<open>(s - 2) * 9 + i + 1\<close> and the text of that value, however long the arrays are.
\<close>

theorem question_id_by_position:
  assumes "submit_form db form_data = (db', Inr response)"
      and "getattr_stepData form_data s = Inr step_data"
      and "i < length step_data"
  shows "2 \<le> s \<and> s \<le> 8
       \<and> length (answers db) + answers_before form_data s + i < length (answers db')
       \<and> Answer.question_id (answers db' ! (length (answers db) + answers_before form_data s + i))
           = (s - 2) * 9 + int i + 1
       \<and> answer_text (answers db' ! (length (answers db) + answers_before form_data s + i))
           = str (step_data ! i)"
proof -
  from assms(1) obtain first_name' last_name' db1 uid db2 utid ids where
    u: "insert_user db (new_User form_data first_name' last_name') = Inr (db1, uid)" and
    t: "insert_user_tool db1 (new_User_Tool uid) = Inr (db2, utid)" and
    a: "flush_answers db2 (expected_answers utid form_data) = Inr (db', ids)"
    by (rule submit_form_Inr)
  let ?pending = "expected_answers utid form_data"
  let ?j = "answers_before form_data s + i"
  note U = insert_user_Inr [OF u] and T = insert_user_tool_Inr [OF t]
    and A = flush_answers_Inr [OF a]
  have len: "length ids = length ?pending"
    using A by simp
  have stored: "answers db' =
      answers db @ map2 (\<lambda>answer k. answer\<lparr>answer_id := Some k\<rparr>) ?pending ids"
    using U T A by simp
  have j: "?j < length ?pending"
    and at_j: "?pending ! ?j = new_Answer utid s (int i) (step_data ! i)"
    using expected_answers_nth [OF assms(2,3)] by simp_all
  have row: "answers db' ! (length (answers db) + ?j) =
      (?pending ! ?j)\<lparr>answer_id := Some (ids ! ?j)\<rparr>"
    using j len by (simp add: stored add.assoc)
  have steps: "2 \<le> s \<and> s \<le> 8"
    using assms(2) by (auto simp: getattr_stepData_def split: if_splits)
  have inside: "length (answers db) + ?j < length (answers db')"
    using j len by (simp add: stored add.assoc)
  show ?thesis
    using steps inside by (simp add: row at_j new_Answer_def add.assoc)
qed

theorem question_id_by_position_witness:
  "submit_form (seeded_db [1, 2, 3, 4, 5, 6, 7, 8, 9, 10]) overlong =
     (fst (submit_form (seeded_db [1, 2, 3, 4, 5, 6, 7, 8, 9, 10]) overlong),
      Inr [(''message'', ''Form submitted successfully'')])
   \<and> getattr_stepData overlong 3 = Inr [3]
   \<and> (0 :: nat) < length [3 :: int]
   \<and> Answer.question_id
        (answers (fst (submit_form (seeded_db [1, 2, 3, 4, 5, 6, 7, 8, 9, 10]) overlong)) ! 10)
       = 10
   \<and> answer_text
        (answers (fst (submit_form (seeded_db [1, 2, 3, 4, 5, 6, 7, 8, 9, 10]) overlong)) ! 10)
       = ''3''"
proof -
  have h1: "submit_form (seeded_db [1, 2, 3, 4, 5, 6, 7, 8, 9, 10]) overlong =
     (fst (submit_form (seeded_db [1, 2, 3, 4, 5, 6, 7, 8, 9, 10]) overlong),
      Inr [(''message'', ''Form submitted successfully'')])"
    using overlong_run by (simp add: prod_eq_iff)
  have h2: "getattr_stepData overlong 3 = Inr [3]"
    by code_simp
  have h3: "(0 :: nat) < length [3 :: int]"
    by simp
  have before: "length (answers (seeded_db [1, 2, 3, 4, 5, 6, 7, 8, 9, 10])) +
      answers_before overlong 3 + 0 = 10"
    by code_simp
  have digit: "str ([3] ! 0) = ''3''"
    by code_simp
  from question_id_by_position [OF h1 h2 h3] h1 h2 h3 show ?thesis
    by (simp only: before digit) simp
qed




text \<open>
  C3, as the code has it. A \<^verbatim>\<open>fullName\<close> without a space makes the handler fail before
  any insert, and the database is left exactly as it was; but the failure is the
  \<^verbatim>\<open>ValueError\<close> of the unpacking, raised inside the handler. The request as a whole
  ends in a \<^verbatim>\<open>ValidationError\<close> only when the e-mail address is refused, which
  happens before the handler runs.
\<close>

theorem no_space_fails:
  assumes "CHR '' '' \<notin> set (fullName body)"
  shows "submit_form db body = (db, Inl ValueError)
       \<and> post_submit_form EmailStr db body =
           (db, Inl (case EmailStr (emailAddress body) of
                       None \<Rightarrow> ValidationError
                     | Some address \<Rightarrow> ValueError))"
proof -
  have handler: "submit_form db form_data = (db, Inl ValueError)"
    if "fullName form_data = fullName body" for form_data
    using assms that by (simp add: submit_form_phases unpack2_str_split_once)
  have "post_submit_form EmailStr db body =
           (db, Inl (case EmailStr (emailAddress body) of
                       None \<Rightarrow> ValidationError
                     | Some address \<Rightarrow> ValueError))"
    by (simp add: post_submit_form_def FormData_validate_def handler split: option.splits)
  with handler [of body] show ?thesis
    by simp
qed

theorem no_space_fails_witness:
  "CHR '' '' \<notin> set (fullName mononym)
   \<and> submit_form (seeded_db [1, 2]) mononym = (seeded_db [1, 2], Inl ValueError)
   \<and> post_submit_form (accepts_only ''jane@example.com'') (seeded_db [1, 2]) mononym =
       (seeded_db [1, 2],
        Inl (case accepts_only ''jane@example.com'' (emailAddress mononym) of
               None \<Rightarrow> ValidationError
             | Some address \<Rightarrow> ValueError))"
proof -
  have h: "CHR '' '' \<notin> set (fullName mononym)"
    by code_simp
  from h no_space_fails [OF h] show ?thesis
    by blast
qed

text \<open>
  The body \<open>mononym\<close> has the \<^verbatim>\<open>fullName\<close> \<^verbatim>\<open>"Jane"\<close> and an address that the check
  accepts: validation passes it on, and the handler raises \<^verbatim>\<open>ValueError\<close>, which is
  not a \<^verbatim>\<open>ValidationError\<close>.
\<close>

theorem no_space_counterexample:
  "fullName mononym = ''Jane''
   \<and> FormData_validate (accepts_only ''jane@example.com'') mononym = Inr mononym
   \<and> post_submit_form (accepts_only ''jane@example.com'') (seeded_db [1, 2]) mononym =
       (seeded_db [1, 2], Inl ValueError)
   \<and> snd (post_submit_form (accepts_only ''jane@example.com'') (seeded_db [1, 2]) mononym) \<noteq>
       Inl ValidationError"
  by code_simp

text \<open>
  C4, as the code has it. The annotation \<^verbatim>\<open>str\<close> accepts the empty string. Take a
  request that is accepted, and put the empty string in any of \<^verbatim>\<open>telephoneNumber\<close>,
  \<^verbatim>\<open>professionalStatus\<close>, \<^verbatim>\<open>industry\<close>, \<^verbatim>\<open>organisation\<close>, \<^verbatim>\<open>jobLevel\<close>,
  \<^verbatim>\<open>department\<close> and \<^verbatim>\<open>location\<close>, leaving the others as they are: the request
  passes validation and is accepted with the same response, and the user is stored with
  the seven fields as they are submitted, the empty ones empty.
\<close>

theorem empty_fields_accepted:
  assumes "post_submit_form EmailStr db body = (db', Inr response)"
      and "t = [] \<or> t = telephoneNumber body"
      and "p = [] \<or> p = professionalStatus body"
      and "i = [] \<or> i = FormData.industry body"
      and "g = [] \<or> g = organisation body"
      and "j = [] \<or> j = jobLevel body"
      and "d = [] \<or> d = FormData.department body"
      and "l = [] \<or> l = FormData.location body"
  shows "\<exists>form_data db'' user.
           FormData_validate EmailStr
             (body\<lparr>telephoneNumber := t, professionalStatus := p, FormData.industry := i,
                   organisation := g, jobLevel := j, FormData.department := d,
                   FormData.location := l\<rparr>) = Inr form_data
         \<and> post_submit_form EmailStr db
             (body\<lparr>telephoneNumber := t, professionalStatus := p, FormData.industry := i,
                   organisation := g, jobLevel := j, FormData.department := d,
                   FormData.location := l\<rparr>) = (db'', Inr response)
         \<and> users db'' = users db @ [user]
         \<and> telephone_number user = t
         \<and> professional_status user = p
         \<and> User.industry user = i
         \<and> organization user = g
         \<and> job_level user = j
         \<and> User.department user = d
         \<and> User.location user = l"
proof -
  let ?body' = "body\<lparr>telephoneNumber := t, professionalStatus := p, FormData.industry := i,
      organisation := g, jobLevel := j, FormData.department := d, FormData.location := l\<rparr>"
  from assms(1) obtain address where
    valid: "EmailStr (emailAddress body) = Some address" and
    handled: "submit_form db (body\<lparr>emailAddress := address\<rparr>) = (db', Inr response)"
    by (auto simp: post_submit_form_def FormData_validate_def split: option.splits)
  let ?form = "body\<lparr>emailAddress := address\<rparr>"
  let ?form' = "?body'\<lparr>emailAddress := address\<rparr>"
  from handled obtain first_name' last_name' db1 uid where
    "insert_user db (new_User ?form first_name' last_name') = Inr (db1, uid)"
    by (rule submit_form_Inr)
  then have "storable_User (new_User ?form first_name' last_name')"
    by (rule insert_user_Inr)
  then have fields: "storable_text (telephoneNumber body)" "storable_text (professionalStatus body)"
      "storable_text (FormData.industry body)" "storable_text (organisation body)"
      "storable_text (jobLevel body)" "storable_text (FormData.department body)"
      "storable_text (FormData.location body)"
    by (simp_all add: storable_User_def new_User_def)
  have empty: "storable_text []"
    by (simp add: storable_text_def)
  from assms(2-8) fields empty have fields':
      "storable_text t" "storable_text p" "storable_text i" "storable_text g"
      "storable_text j" "storable_text d" "storable_text l"
    by auto
  have alike: "storable_User (new_User ?form' a b) = storable_User (new_User ?form a b)" for a b
    using fields fields' by (simp add: storable_User_def new_User_def)
  have "snd (submit_form db ?form') = snd (submit_form db ?form)"
    by (rule submit_form_outcome) (simp_all add: alike)
  with handled have "snd (submit_form db ?form') = Inr response"
    by simp
  then obtain db'' where handled': "submit_form db ?form' = (db'', Inr response)"
    by (cases "submit_form db ?form'") simp
  from handled' obtain a b db1' uid' db2' utid' ids' where
    u: "insert_user db (new_User ?form' a b) = Inr (db1', uid')" and
    ut: "insert_user_tool db1' (new_User_Tool uid') = Inr (db2', utid')" and
    fl: "flush_answers db2' (expected_answers utid' ?form') = Inr (db'', ids')"
    by (rule submit_form_Inr)
  let ?user = "(new_User ?form' a b)\<lparr>User.user_id := Some uid'\<rparr>"
  have stored: "users db'' = users db @ [?user]"
    using insert_user_Inr [OF u] insert_user_tool_Inr [OF ut] flush_answers_Inr [OF fl]
    by simp
  have validated: "FormData_validate EmailStr ?body' = Inr ?form'"
    using valid by (simp add: FormData_validate_def)
  have requested: "post_submit_form EmailStr db ?body' = (db'', Inr response)"
    using validated handled' by (simp add: post_submit_form_def)
  have "telephone_number ?user = t" "professional_status ?user = p" "User.industry ?user = i"
      "organization ?user = g" "job_level ?user = j" "User.department ?user = d"
      "User.location ?user = l"
    by (simp_all add: new_User_def)
  with validated requested stored show ?thesis
    by blast
qed

theorem empty_fields_accepted_witness:
  "post_submit_form (accepts_only ''jane@example.com'') (seeded_db [1, 2]) jane_doe =
     (jane_doe_stored, Inr [(''message'', ''Form submitted successfully'')])
   \<and> (\<exists>form_data db'' user.
           FormData_validate (accepts_only ''jane@example.com'')
             (jane_doe\<lparr>telephoneNumber := [], professionalStatus := [], FormData.industry := [],
                   organisation := [], jobLevel := [], FormData.department := [],
                   FormData.location := []\<rparr>) = Inr form_data
         \<and> post_submit_form (accepts_only ''jane@example.com'') (seeded_db [1, 2])
             (jane_doe\<lparr>telephoneNumber := [], professionalStatus := [], FormData.industry := [],
                   organisation := [], jobLevel := [], FormData.department := [],
                   FormData.location := []\<rparr>) =
             (db'', Inr [(''message'', ''Form submitted successfully'')])
         \<and> users db'' = users (seeded_db [1, 2]) @ [user]
         \<and> telephone_number user = []
         \<and> professional_status user = []
         \<and> User.industry user = []
         \<and> organization user = []
         \<and> job_level user = []
         \<and> User.department user = []
         \<and> User.location user = [])"
proof -
  have accepted: "post_submit_form (accepts_only ''jane@example.com'') (seeded_db [1, 2]) jane_doe =
       (jane_doe_stored, Inr [(''message'', ''Form submitted successfully'')])"
    by code_simp
  from accepted
    empty_fields_accepted
      [where EmailStr = "accepts_only ''jane@example.com''" and db = "seeded_db [1, 2]"
         and body = jane_doe and t = "[]" and p = "[]" and i = "[]" and g = "[]" and j = "[]"
         and d = "[]" and l = "[]" and db' = jane_doe_stored
         and response = "[(''message'', ''Form submitted successfully'')]", OF accepted]
  show ?thesis
    by blast
qed

text \<open>
  The body \<open>blank_fields\<close> has the empty string in each of the seven fields. Validation
  accepts it as it is, the request succeeds, and the user is stored with the empty
  string in the seven columns.
\<close>

theorem blank_fields_counterexample:
  "telephoneNumber blank_fields = [] \<and> professionalStatus blank_fields = []
   \<and> FormData.industry blank_fields = [] \<and> organisation blank_fields = []
   \<and> jobLevel blank_fields = [] \<and> FormData.department blank_fields = []
   \<and> FormData.location blank_fields = []
   \<and> FormData_validate (accepts_only ''jane@example.com'') blank_fields = Inr blank_fields
   \<and> snd (post_submit_form (accepts_only ''jane@example.com'') (seeded_db [1, 2]) blank_fields) =
       Inr [(''message'', ''Form submitted successfully'')]
   \<and> map telephone_number
        (users (fst (post_submit_form (accepts_only ''jane@example.com'') (seeded_db [1, 2])
           blank_fields))) = [[]]
   \<and> map User.location
        (users (fst (post_submit_form (accepts_only ''jane@example.com'') (seeded_db [1, 2])
           blank_fields))) = [[]]"
  by code_simp

text \<open>
  C5. When \<^verbatim>\<open>fullName\<close> has a space, the split gives the text before the first space
  and all the text after it; and whenever the request stores a user (also when a later
  commit fails), the stored \<^verbatim>\<open>first_name\<close> has no space, and \<^verbatim>\<open>fullName\<close> is that
  \<^verbatim>\<open>first_name\<close>, one space, and the stored \<^verbatim>\<open>last_name\<close>, which so keeps every
  further space.
\<close>

theorem name_split_at_first_space:
  assumes "CHR '' '' \<in> set (fullName form_data)"
      and "submit_form db form_data = (db', outcome)"
      and "users db' \<noteq> users db"
  shows "unpack2 (str_split (fullName form_data) (CHR '' '') 1) =
           Inr (takeWhile (\<lambda>c. c \<noteq> CHR '' '') (fullName form_data),
                tl (dropWhile (\<lambda>c. c \<noteq> CHR '' '') (fullName form_data)))
       \<and> (\<exists>user. users db' = users db @ [user]
            \<and> fullName form_data = first_name user @ CHR '' '' # last_name user
            \<and> CHR '' '' \<notin> set (first_name user)
            \<and> first_name user = takeWhile (\<lambda>c. c \<noteq> CHR '' '') (fullName form_data)
            \<and> last_name user = tl (dropWhile (\<lambda>c. c \<noteq> CHR '' '') (fullName form_data)))"
proof -
  let ?before = "takeWhile (\<lambda>c. c \<noteq> CHR '' '') (fullName form_data)"
  let ?after = "tl (dropWhile (\<lambda>c. c \<noteq> CHR '' '') (fullName form_data))"
  have parts: "unpack2 (str_split (fullName form_data) (CHR '' '') 1) = Inr (?before, ?after)"
    using assms(1) by (simp only: unpack2_str_split if_True)
  from submit_form_users [OF assms(2)] assms(3) parts obtain uid where
    stored: "users db' = users db @ [(new_User form_data ?before ?after)\<lparr>User.user_id := Some uid\<rparr>]"
    by auto
  let ?user = "(new_User form_data ?before ?after)\<lparr>User.user_id := Some uid\<rparr>"
  have "first_name ?user = ?before" and "last_name ?user = ?after"
    by (simp_all add: new_User_def)
  with first_separator [OF assms(1)] stored parts show ?thesis
    by auto
qed

theorem name_split_at_first_space_witness:
  "CHR '' '' \<in> set (fullName (jane_doe\<lparr>fullName := ''Mary Jane Doe''\<rparr>))
   \<and> submit_form (seeded_db [1]) (jane_doe\<lparr>fullName := ''Mary Jane Doe''\<rparr>) =
       (fst (submit_form (seeded_db [1]) (jane_doe\<lparr>fullName := ''Mary Jane Doe''\<rparr>)),
        Inl (IntegrityError ForeignKeyViolation))
   \<and> users (fst (submit_form (seeded_db [1]) (jane_doe\<lparr>fullName := ''Mary Jane Doe''\<rparr>))) \<noteq>
       users (seeded_db [1])
   \<and> map first_name (users (fst (submit_form (seeded_db [1])
         (jane_doe\<lparr>fullName := ''Mary Jane Doe''\<rparr>)))) = [''Mary'']
   \<and> map last_name (users (fst (submit_form (seeded_db [1])
         (jane_doe\<lparr>fullName := ''Mary Jane Doe''\<rparr>)))) = [''Jane Doe'']"
proof -
  let ?form = "jane_doe\<lparr>fullName := ''Mary Jane Doe''\<rparr>"
  let ?db' = "fst (submit_form (seeded_db [1]) ?form)"
  have h1: "CHR '' '' \<in> set (fullName ?form)"
    by code_simp
  have outcome: "snd (submit_form (seeded_db [1]) ?form) = Inl (IntegrityError ForeignKeyViolation)"
    by code_simp
  have h2: "submit_form (seeded_db [1]) ?form = (?db', Inl (IntegrityError ForeignKeyViolation))"
    using outcome by (simp add: prod_eq_iff)
  have h3: "users ?db' \<noteq> users (seeded_db [1])"
    by code_simp
  have before: "takeWhile (\<lambda>c. c \<noteq> CHR '' '') (fullName ?form) = ''Mary''"
    by code_simp
  have after: "tl (dropWhile (\<lambda>c. c \<noteq> CHR '' '') (fullName ?form)) = ''Jane Doe''"
    by code_simp
  have empty: "users (seeded_db [1]) = []"
    by code_simp
  from name_split_at_first_space [OF h1 h2 h3] obtain user where
    stored: "users ?db' = users (seeded_db [1]) @ [user]" and
    first: "first_name user = takeWhile (\<lambda>c. c \<noteq> CHR '' '') (fullName ?form)" and
    rest: "last_name user = tl (dropWhile (\<lambda>c. c \<noteq> CHR '' '') (fullName ?form))"
    by blast
  have "map first_name (users ?db') = [''Mary''] \<and> map last_name (users ?db') = [''Jane Doe'']"
    by (simp only: stored empty first rest before after append_Nil list.map simp_thms)
  with h1 h2 h3 show ?thesis
    by blast
qed

text \<open>
  C6, as the code has it. Take a body whose \<^verbatim>\<open>fullName\<close> has a space, so that the
  handler reaches the \<^verbatim>\<open>User\<close> insert, and whose e-mail address is that of a stored
  user. The request fails at that insert, and in the database it leaves,
  \<^verbatim>\<open>user_tools\<close> and \<^verbatim>\<open>answers\<close> are what they were. The failure is the unique
  violation when the nine strings of the body can be stored; a body with the character
  U+0000 in one of them is refused for that text instead, before the unique index is
  looked at.
\<close>

theorem duplicate_email_fails:
  assumes "emailAddress form_data \<in> set (map email (users db))"
      and "CHR '' '' \<in> set (fullName form_data)"
  shows "snd (submit_form db form_data) =
           Inl (if storable_FormData form_data then IntegrityError UniqueViolation
                else CharacterNotInRepertoireError)
       \<and> user_tools (fst (submit_form db form_data)) = user_tools db
       \<and> answers (fst (submit_form db form_data)) = answers db"
proof -
  let ?user = "new_User form_data (takeWhile (\<lambda>c. c \<noteq> CHR '' '') (fullName form_data))
      (tl (dropWhile (\<lambda>c. c \<noteq> CHR '' '') (fullName form_data)))"
  have parts: "unpack2 (str_split (fullName form_data) (CHR '' '') (Suc 0)) =
      Inr (takeWhile (\<lambda>c. c \<noteq> CHR '' '') (fullName form_data),
           tl (dropWhile (\<lambda>c. c \<noteq> CHR '' '') (fullName form_data)))"
    using assms(2) by (simp add: unpack2_str_split_once)
  have "\<exists>failed. insert_user db ?user =
      Inl (if storable_FormData form_data then IntegrityError UniqueViolation
           else CharacterNotInRepertoireError, failed)"
    using assms(1) storable_new_User [OF assms(2)]
    by (simp add: insert_user_def Let_def new_User_def)
  then obtain failed where "insert_user db ?user =
      Inl (if storable_FormData form_data then IntegrityError UniqueViolation
           else CharacterNotInRepertoireError, failed)"
    by blast
  with parts have "submit_form db form_data =
      (rollback db failed,
       Inl (if storable_FormData form_data then IntegrityError UniqueViolation
            else CharacterNotInRepertoireError))"
    by (simp add: submit_form_phases)
  then show ?thesis
    by simp
qed

theorem duplicate_email_fails_witness:
  "emailAddress jane_doe \<in> set (map email (users jane_doe_stored))
   \<and> CHR '' '' \<in> set (fullName jane_doe)
   \<and> storable_FormData jane_doe
   \<and> snd (submit_form jane_doe_stored jane_doe) = Inl (IntegrityError UniqueViolation)
   \<and> user_tools (fst (submit_form jane_doe_stored jane_doe)) = user_tools jane_doe_stored
   \<and> answers (fst (submit_form jane_doe_stored jane_doe)) = answers jane_doe_stored"
proof -
  have h: "emailAddress jane_doe \<in> set (map email (users jane_doe_stored))"
    by code_simp
  have space: "CHR '' '' \<in> set (fullName jane_doe)"
    by code_simp
  have storable: "storable_FormData jane_doe"
    by code_simp
  from duplicate_email_fails [OF h space] storable
  have "snd (submit_form jane_doe_stored jane_doe) = Inl (IntegrityError UniqueViolation)
      \<and> user_tools (fst (submit_form jane_doe_stored jane_doe)) = user_tools jane_doe_stored
      \<and> answers (fst (submit_form jane_doe_stored jane_doe)) = answers jane_doe_stored"
    by (simp only: if_True simp_thms)
  with h space storable show ?thesis
    by blast
qed

text \<open>
  The body \<open>nul_phone\<close> is \<open>jane_doe\<close> with the one character U+0000 as
  \<^verbatim>\<open>telephoneNumber\<close>. It passes validation, its \<^verbatim>\<open>fullName\<close> has a space and its
  address is that of the stored user; the \<^verbatim>\<open>User\<close> insert is refused for the text, and
  the failure is not the unique violation.
\<close>

theorem duplicate_email_counterexample:
  "emailAddress nul_phone \<in> set (map email (users jane_doe_stored))
   \<and> CHR '' '' \<in> set (fullName nul_phone)
   \<and> FormData_validate (accepts_only ''jane@example.com'') nul_phone = Inr nul_phone
   \<and> snd (post_submit_form (accepts_only ''jane@example.com'') jane_doe_stored nul_phone) =
       Inl CharacterNotInRepertoireError
   \<and> snd (post_submit_form (accepts_only ''jane@example.com'') jane_doe_stored nul_phone) \<noteq>
       Inl (IntegrityError UniqueViolation)"
  by code_simp

text \<open>
  C7. When the name splits in two, the \<^verbatim>\<open>User\<close> commit, the \<^verbatim>\<open>User_Tool\<close> commit and
  the commit of the answers that the loops added all succeed, the handler returns
  exactly the JSON body \<^verbatim>\<open>{"message": "Form submitted successfully"}\<close>, and leaves
  the database of the third commit.
\<close>

theorem handler_response:
  assumes "unpack2 (str_split (fullName form_data) (CHR '' '') 1) = Inr (first_name', last_name')"
      and "insert_user db (new_User form_data first_name' last_name') = Inr (db1, uid)"
      and "insert_user_tool db1 (new_User_Tool uid) = Inr (db2, utid)"
      and "add_answers utid form_data (py_range 2 9) [] = Inr pending"
      and "flush_answers db2 pending = Inr (db3, ids)"
  shows "submit_form db form_data =
           (db3, Inr [(''message'', ''Form submitted successfully'')])"
  using assms by (simp add: submit_form_def commit_def)

theorem handler_response_witness:
  "unpack2 (str_split (fullName jane_doe) (CHR '' '') 1) = Inr (''Jane'', ''Doe'')
   \<and> insert_user (seeded_db [1, 2]) (new_User jane_doe ''Jane'' ''Doe'') =
       Inr (jane_user_stored [1, 2], 1)
   \<and> insert_user_tool (jane_user_stored [1, 2]) (new_User_Tool 1) =
       Inr (jane_tool_stored [1, 2], 1)
   \<and> add_answers 1 jane_doe (py_range 2 9) [] = Inr [new_Answer 1 2 0 1, new_Answer 1 2 1 2]
   \<and> flush_answers (jane_tool_stored [1, 2]) [new_Answer 1 2 0 1, new_Answer 1 2 1 2] =
       Inr (jane_doe_stored, [1, 2])
   \<and> submit_form (seeded_db [1, 2]) jane_doe =
       (jane_doe_stored, Inr [(''message'', ''Form submitted successfully'')])"
proof -
  have h1: "unpack2 (str_split (fullName jane_doe) (CHR '' '') 1) = Inr (''Jane'', ''Doe'')"
    by code_simp
  have h2: "insert_user (seeded_db [1, 2]) (new_User jane_doe ''Jane'' ''Doe'') =
       Inr (jane_user_stored [1, 2], 1)"
    by code_simp
  have h3: "insert_user_tool (jane_user_stored [1, 2]) (new_User_Tool 1) =
       Inr (jane_tool_stored [1, 2], 1)"
    by code_simp
  have h4: "add_answers 1 jane_doe (py_range 2 9) [] =
       Inr [new_Answer 1 2 0 1, new_Answer 1 2 1 2]"
    by code_simp
  have h5: "flush_answers (jane_tool_stored [1, 2]) [new_Answer 1 2 0 1, new_Answer 1 2 1 2] =
       Inr (jane_doe_stored, [1, 2])"
    by code_simp
  from h1 h2 h3 h4 h5 handler_response [OF h1 h2 h3 h4 h5] show ?thesis
    by blast
qed

text \<open>
  C8. The answers of a request are flushed by the one commit that follows the two
  loops. When the name has split, the \<^verbatim>\<open>User\<close> and \<^verbatim>\<open>User_Tool\<close> commits have
  succeeded and that last flush fails at any of its inserts, the handler raises the
  error, and in the database it leaves no answer of the request is in \<^verbatim>\<open>answers\<close>,
  while the user and the user tool of the two earlier commits are still there.
\<close>

theorem answers_all_or_nothing:
  assumes "unpack2 (str_split (fullName form_data) (CHR '' '') 1) = Inr (first_name', last_name')"
      and "insert_user db (new_User form_data first_name' last_name') = Inr (db1, uid)"
      and "insert_user_tool db1 (new_User_Tool uid) = Inr (db2, utid)"
      and "add_answers utid form_data (py_range 2 9) [] = Inr pending"
      and "flush_answers db2 pending = Inl (e, failed)"
  shows "snd (submit_form db form_data) = Inl e
       \<and> answers (fst (submit_form db form_data)) = answers db
       \<and> users (fst (submit_form db form_data)) =
           users db @ [(new_User form_data first_name' last_name')\<lparr>User.user_id := Some uid\<rparr>]
       \<and> user_tools (fst (submit_form db form_data)) =
           user_tools db @ [(new_User_Tool uid)\<lparr>User_Tool.user_tool_id := Some utid\<rparr>]"
proof -
  note U = insert_user_Inr [OF assms(2)] and T = insert_user_tool_Inr [OF assms(3)]
  have outcome: "submit_form db form_data = (rollback db2 failed, Inl e)"
    using assms by (simp add: submit_form_def commit_def)
  have "answers (rollback db2 failed) = answers db"
    using U T by simp
  moreover have "users (rollback db2 failed) =
      users db @ [(new_User form_data first_name' last_name')\<lparr>User.user_id := Some uid\<rparr>]"
    using U T by simp
  moreover have "user_tools (rollback db2 failed) =
      user_tools db @ [(new_User_Tool uid)\<lparr>User_Tool.user_tool_id := Some utid\<rparr>]"
    using U T by simp
  ultimately show ?thesis
    by (simp add: outcome)
qed

theorem answers_all_or_nothing_witness:
  "unpack2 (str_split (fullName jane_doe) (CHR '' '') 1) = Inr (''Jane'', ''Doe'')
   \<and> insert_user (seeded_db [1]) (new_User jane_doe ''Jane'' ''Doe'') =
       Inr (jane_user_stored [1], 1)
   \<and> insert_user_tool (jane_user_stored [1]) (new_User_Tool 1) = Inr (jane_tool_stored [1], 1)
   \<and> add_answers 1 jane_doe (py_range 2 9) [] = Inr [new_Answer 1 2 0 1, new_Answer 1 2 1 2]
   \<and> insert_answer (jane_tool_stored [1]) (new_Answer 1 2 0 1) =
       Inr ((jane_tool_stored [1])
              \<lparr>answers := [(new_Answer 1 2 0 1)\<lparr>answer_id := Some 1\<rparr>],
               answers_answer_id_seq := 2\<rparr>, 1)
   \<and> flush_answers (jane_tool_stored [1]) [new_Answer 1 2 0 1, new_Answer 1 2 1 2] =
       Inl (IntegrityError ForeignKeyViolation,
            (jane_tool_stored [1])
              \<lparr>answers := [(new_Answer 1 2 0 1)\<lparr>answer_id := Some 1\<rparr>],
               answers_answer_id_seq := 3\<rparr>)
   \<and> snd (submit_form (seeded_db [1]) jane_doe) = Inl (IntegrityError ForeignKeyViolation)
   \<and> answers (fst (submit_form (seeded_db [1]) jane_doe)) = answers (seeded_db [1])
   \<and> users (fst (submit_form (seeded_db [1]) jane_doe)) =
       users (seeded_db [1]) @ [(new_User jane_doe ''Jane'' ''Doe'')\<lparr>User.user_id := Some 1\<rparr>]
   \<and> user_tools (fst (submit_form (seeded_db [1]) jane_doe)) =
       user_tools (seeded_db [1]) @ [(new_User_Tool 1)\<lparr>User_Tool.user_tool_id := Some 1\<rparr>]"
proof -
  have h1: "unpack2 (str_split (fullName jane_doe) (CHR '' '') 1) = Inr (''Jane'', ''Doe'')"
    by code_simp
  have h2: "insert_user (seeded_db [1]) (new_User jane_doe ''Jane'' ''Doe'') =
       Inr (jane_user_stored [1], 1)"
    by code_simp
  have h3: "insert_user_tool (jane_user_stored [1]) (new_User_Tool 1) =
       Inr (jane_tool_stored [1], 1)"
    by code_simp
  have h4: "add_answers 1 jane_doe (py_range 2 9) [] =
       Inr [new_Answer 1 2 0 1, new_Answer 1 2 1 2]"
    by code_simp
  have h5: "flush_answers (jane_tool_stored [1]) [new_Answer 1 2 0 1, new_Answer 1 2 1 2] =
       Inl (IntegrityError ForeignKeyViolation,
            (jane_tool_stored [1])
              \<lparr>answers := [(new_Answer 1 2 0 1)\<lparr>answer_id := Some 1\<rparr>],
               answers_answer_id_seq := 3\<rparr>)"
    by code_simp
  have first_insert: "insert_answer (jane_tool_stored [1]) (new_Answer 1 2 0 1) =
       Inr ((jane_tool_stored [1])
              \<lparr>answers := [(new_Answer 1 2 0 1)\<lparr>answer_id := Some 1\<rparr>],
               answers_answer_id_seq := 2\<rparr>, 1)"
    by code_simp
  from h1 h2 h3 h4 h5 first_insert answers_all_or_nothing [OF h1 h2 h3 h4 h5] show ?thesis
    by blast
qed

text \<open>
  C9. A \<^verbatim>\<open>fullName\<close> that begins with a space splits into the empty string and all
  that follows the space, so the unpacking succeeds; and the body \<open>leading_space\<close>, whose
  \<^verbatim>\<open>fullName\<close> is \<^verbatim>\<open>" Jane Doe"\<close>, is accepted and stored with the empty string as
  \<^verbatim>\<open>first_name\<close> and \<^verbatim>\<open>"Jane Doe"\<close> as \<^verbatim>\<open>last_name\<close>.
\<close>

theorem empty_first_name:
  "unpack2 (str_split (CHR '' '' # rest) (CHR '' '') 1) = Inr ([], rest)
   \<and> fullName leading_space = '' Jane Doe''
   \<and> snd (submit_form (seeded_db [1, 2]) leading_space) =
       Inr [(''message'', ''Form submitted successfully'')]
   \<and> map first_name (users (fst (submit_form (seeded_db [1, 2]) leading_space))) = [[]]
   \<and> map last_name (users (fst (submit_form (seeded_db [1, 2]) leading_space))) = [''Jane Doe'']"
proof -
  have "unpack2 (str_split (CHR '' '' # rest) (CHR '' '') 1) = Inr ([], rest)"
    by (simp add: str_split_def)
  moreover have "fullName leading_space = '' Jane Doe''"
    by code_simp
  moreover have "snd (submit_form (seeded_db [1, 2]) leading_space) =
       Inr [(''message'', ''Form submitted successfully'')]"
    by code_simp
  moreover have
    "map first_name (users (fst (submit_form (seeded_db [1, 2]) leading_space))) = [[]]"
    by code_simp
  moreover have
    "map last_name (users (fst (submit_form (seeded_db [1, 2]) leading_space))) = [''Jane Doe'']"
    by code_simp
  ultimately show ?thesis
    by blast
qed

text \<open>
  C10. The numbering is not one-to-one once an array has more than nine values. The
  body \<open>overlong\<close> has ten values for step 2 and one for step 3; it is accepted over a
  database with questions 1 to 10; the row for step 2, position 9 (the tenth row
  created) and the row for step 3, position 0 (the eleventh) belong to the same user
  tool and both have \<^verbatim>\<open>question_id\<close> 10.
\<close>

theorem question_id_collision:
  "length (step2Data overlong) = 10
   \<and> length (step3Data overlong) = 1
   \<and> snd (submit_form (seeded_db [1, 2, 3, 4, 5, 6, 7, 8, 9, 10]) overlong) =
       Inr [(''message'', ''Form submitted successfully'')]
   \<and> answers_before overlong 2 + 9 = 9
   \<and> answers_before overlong 3 + 0 = 10
   \<and> Answer.question_id
        (answers (fst (submit_form (seeded_db [1, 2, 3, 4, 5, 6, 7, 8, 9, 10]) overlong)) ! 9) =
       (2 - 2) * 9 + 9 + 1
   \<and> Answer.question_id
        (answers (fst (submit_form (seeded_db [1, 2, 3, 4, 5, 6, 7, 8, 9, 10]) overlong)) ! 10) =
       (3 - 2) * 9 + 0 + 1
   \<and> Answer.user_tool_id
        (answers (fst (submit_form (seeded_db [1, 2, 3, 4, 5, 6, 7, 8, 9, 10]) overlong)) ! 9) =
      Answer.user_tool_id
        (answers (fst (submit_form (seeded_db [1, 2, 3, 4, 5, 6, 7, 8, 9, 10]) overlong)) ! 10)
   \<and> map Answer.question_id
        (answers (fst (submit_form (seeded_db [1, 2, 3, 4, 5, 6, 7, 8, 9, 10]) overlong))) =
       [1, 2, 3, 4, 5, 6, 7, 8, 9, 10, 10]"
  by code_simp

end
